theory Spec2Isabelle
  imports Complex_Main
begin

section \<open>JavaScript numbers\<close>

text \<open>
  The harness of \<^verbatim>\<open>game.ts\<close> computes with JavaScript numbers. A number is modelled as
  a finite real or one of the three special values of IEEE 754. The special values follow
  the IEEE rules that the program relies on (\<open>0 / 0\<close> is NaN, NaN propagates through every
  operation, \<open>Infinity - Infinity\<close> is NaN). Arithmetic on finite values is exact: rounding
  to 53 bits of mantissa, overflow to infinity and the sign of zero are not modelled. Every
  concrete number evaluated below is a small integer, on which double arithmetic is exact.
\<close>

datatype number = Fin real | PosInf | NegInf | NaN

text \<open>\<^verbatim>\<open>a + b\<close>\<close>

fun num_add :: "number \<Rightarrow> number \<Rightarrow> number" where
  "num_add NaN b = NaN"
| "num_add a NaN = NaN"
| "num_add (Fin a) (Fin b) = Fin (a + b)"
| "num_add PosInf NegInf = NaN"
| "num_add NegInf PosInf = NaN"
| "num_add PosInf b = PosInf"
| "num_add NegInf b = NegInf"
| "num_add a PosInf = PosInf"
| "num_add a NegInf = NegInf"

text \<open>\<^verbatim>\<open>a - b\<close>\<close>

fun num_sub :: "number \<Rightarrow> number \<Rightarrow> number" where
  "num_sub NaN b = NaN"
| "num_sub a NaN = NaN"
| "num_sub (Fin a) (Fin b) = Fin (a - b)"
| "num_sub PosInf PosInf = NaN"
| "num_sub NegInf NegInf = NaN"
| "num_sub PosInf b = PosInf"
| "num_sub NegInf b = NegInf"
| "num_sub a PosInf = NegInf"
| "num_sub a NegInf = PosInf"

text \<open>\<^verbatim>\<open>a / b\<close>; a zero divisor is the positive zero (every divisor of the program is an
  array length or the literal 1000).\<close>

fun num_div :: "number \<Rightarrow> number \<Rightarrow> number" where
  "num_div NaN b = NaN"
| "num_div a NaN = NaN"
| "num_div (Fin a) (Fin b) =
     (if b = 0 then (if a = 0 then NaN else if 0 < a then PosInf else NegInf)
      else Fin (a / b))"
| "num_div (Fin a) PosInf = Fin 0"
| "num_div (Fin a) NegInf = Fin 0"
| "num_div PosInf (Fin b) = (if 0 \<le> b then PosInf else NegInf)"
| "num_div NegInf (Fin b) = (if 0 \<le> b then NegInf else PosInf)"
| "num_div a b = NaN"

text \<open>\<^verbatim>\<open>Math.sqrt(x)\<close>\<close>

fun Math_sqrt :: "number \<Rightarrow> number" where
  "Math_sqrt (Fin a) = (if a < 0 then NaN else Fin (sqrt a))"
| "Math_sqrt PosInf = PosInf"
| "Math_sqrt NegInf = NaN"
| "Math_sqrt NaN = NaN"

text \<open>\<^verbatim>\<open>Math.pow(x, n)\<close> for an exponent that is a natural number (the program only
  squares).\<close>

fun Math_pow :: "number \<Rightarrow> nat \<Rightarrow> number" where
  "Math_pow (Fin a) n = Fin (a ^ n)"
| "Math_pow PosInf n = (if n = 0 then Fin 1 else PosInf)"
| "Math_pow NegInf n = (if n = 0 then Fin 1 else if even n then PosInf else NegInf)"
| "Math_pow NaN n = (if n = 0 then Fin 1 else NaN)"

text \<open>Truthiness of a number: \<^verbatim>\<open>!x\<close> holds for zero and for NaN.\<close>

fun truthy :: "number \<Rightarrow> bool" where
  "truthy (Fin a) = (a \<noteq> 0)"
| "truthy PosInf = True"
| "truthy NegInf = True"
| "truthy NaN = False"

fun is_finite :: "number \<Rightarrow> bool" where
  "is_finite (Fin a) = True"
| "is_finite PosInf = False"
| "is_finite NegInf = False"
| "is_finite NaN = False"

section \<open>Samples and statistics\<close>

text \<open>An element of \<^verbatim>\<open>performanceData\<close>: \<^verbatim>\<open>{ms: number, mouseMoved: boolean}\<close>.\<close>

record sample =
  ms :: number
  mouseMoved :: bool

record group_stats =
  count :: nat
  mean :: number
  stdDev :: number

record report =
  mouseMovedStats :: group_stats
  mouseNotMovedStats :: group_stats
  difference :: number

text \<open>\<^verbatim>\<open>xs.length\<close> as a number.\<close>

definition length_num :: "'a list \<Rightarrow> number" where
  "length_num xs = Fin (real (length xs))"

text \<open>\<^verbatim>\<open>xs.reduce((a, b) => a + b, 0) / xs.length\<close>\<close>

definition mean_of :: "number list \<Rightarrow> number" where
  "mean_of xs = num_div (foldl (\<lambda>a b. num_add a b) (Fin 0) xs) (length_num xs)"

text \<open>\<^verbatim>\<open>Math.sqrt(xs.reduce((a, b) => a + Math.pow(b - m, 2), 0) / xs.length)\<close>\<close>

definition stdDev_of :: "number list \<Rightarrow> number \<Rightarrow> number" where
  "stdDev_of xs m =
     Math_sqrt (num_div (foldl (\<lambda>a b. num_add a (Math_pow (num_sub b m) 2)) (Fin 0) xs)
                        (length_num xs))"

definition calculateStatistics :: "sample list \<Rightarrow> report" where
  "calculateStatistics data =
     (let mouseMovedTimes = map ms (filter (\<lambda>d. mouseMoved d) data);
          mouseNotMovedTimes = map ms (filter (\<lambda>d. \<not> mouseMoved d) data);
          mouseMovedMean = mean_of mouseMovedTimes;
          mouseNotMovedMean = mean_of mouseNotMovedTimes;
          mouseMovedStdDev = stdDev_of mouseMovedTimes mouseMovedMean;
          mouseNotMovedStdDev = stdDev_of mouseNotMovedTimes mouseNotMovedMean
      in \<lparr> mouseMovedStats =
             \<lparr> count = length mouseMovedTimes,
               mean = mouseMovedMean,
               stdDev = mouseMovedStdDev \<rparr>,
           mouseNotMovedStats =
             \<lparr> count = length mouseNotMovedTimes,
               mean = mouseNotMovedMean,
               stdDev = mouseNotMovedStdDev \<rparr>,
           difference = num_sub mouseMovedMean mouseNotMovedMean \<rparr>)"

section \<open>Strings and platform functions\<close>

text \<open>
  Strings are lists of characters; every character the program writes is below 256
  (\<open>CHR 0x0A\<close> is the line feed, \<open>CHR 0xB1\<close> the plus-minus sign).

  Two functions of the JavaScript platform turn numbers into text: the conversion of a
  template literal \<^verbatim>\<open>${x}\<close> (\<open>Number::toString\<close>) and \<^verbatim>\<open>x.toFixed(2)\<close>. They are not
  code of the repository and are taken as parameters.
\<close>

record platform =
  numberToString :: "number \<Rightarrow> string"
  toFixed2 :: "number \<Rightarrow> string"

text \<open>\<^verbatim>\<open>${b}\<close> for a boolean.\<close>

definition boolToString :: "bool \<Rightarrow> string" where
  "boolToString b = (if b then ''true'' else ''false'')"

text \<open>\<^verbatim>\<open>xs.join(sep)\<close>\<close>

fun join :: "string \<Rightarrow> string list \<Rightarrow> string" where
  "join sep [] = []"
| "join sep [x] = x"
| "join sep (x # y # ys) = x @ sep @ join sep (y # ys)"

section \<open>The export: table, summary and bundle\<close>

text \<open>The row of a sample: \<^verbatim>\<open>`${row.ms},${row.mouseMoved}`\<close>.\<close>

definition csvRow :: "platform \<Rightarrow> sample \<Rightarrow> string" where
  "csvRow pf row = numberToString pf (ms row) @ '','' @ boolToString (mouseMoved row)"

definition csvHeader :: string where
  "csvHeader = ''DrawTime(ms),MouseMoved''"

text \<open>
  \<^verbatim>\<open>"DrawTime(ms),MouseMoved\n" + performanceData.map(row => ...).join("\n")\<close>
\<close>

definition csvContent :: "platform \<Rightarrow> sample list \<Rightarrow> string" where
  "csvContent pf data = csvHeader @ [CHR 0x0A] @ join [CHR 0x0A] (map (csvRow pf) data)"

definition statsText :: "platform \<Rightarrow> report \<Rightarrow> string" where
  "statsText pf stats =
     ''Performance Statistics Summary'' @ [CHR 0x0A] @
     ''--------------------------------'' @ [CHR 0x0A] @
     ''Performance impact of mouse movement: '' @ toFixed2 pf (difference stats) @ ''ms'' @ [CHR 0x0A] @
     [CHR 0x0A] @ ''Mouse Moved Frames:'' @ [CHR 0x0A] @
     ''Count: '' @ numberToString pf (Fin (real (count (mouseMovedStats stats)))) @ [CHR 0x0A] @
     ''Mean: '' @ toFixed2 pf (mean (mouseMovedStats stats)) @ ''ms'' @ [CHR 0x0A] @
     ''Standard Deviation: '' @ [CHR 0xB1] @ toFixed2 pf (stdDev (mouseMovedStats stats)) @ [CHR 0x0A] @
     [CHR 0x0A] @ ''Static Frames:'' @ [CHR 0x0A] @
     ''Count: '' @ numberToString pf (Fin (real (count (mouseNotMovedStats stats)))) @ [CHR 0x0A] @
     ''Mean: '' @ toFixed2 pf (mean (mouseNotMovedStats stats)) @ ''ms'' @ [CHR 0x0A] @
     ''Standard Deviation: '' @ [CHR 0xB1] @ toFixed2 pf (stdDev (mouseNotMovedStats stats))"

text \<open>A \<open>JSZip\<close> archive: its files, name and content, in the order they were added.\<close>

type_synonym zip = "(string \<times> string) list"

definition makeZip :: "platform \<Rightarrow> sample list \<Rightarrow> zip" where
  "makeZip pf data =
     [(''performance_data.csv'', csvContent pf data),
      (''statistics.txt'', statsText pf (calculateStatistics data))]"

section \<open>The state of the harness\<close>

text \<open>
  The operations a handler performs, in program order: the calls to the external
  collaborators (renderer, state machine, artboard, clock, frame scheduling) and the
  accesses to the variable \<^verbatim>\<open>mouseMovedThisFrame\<close>. \<open>RendererAlign w h\<close> is the call
  \<^verbatim>\<open>renderer.align(Fit.contain, Alignment.center, {0, 0, w, h}, artboard.bounds)\<close>;
  \<open>PerformanceNow t\<close> is a call of \<^verbatim>\<open>performance.now()\<close> that returned \<open>t\<close>.
\<close>

datatype op =
    RendererClear
  | StateMachineAdvance number
  | ArtboardAdvance number
  | RendererSave
  | RendererAlign nat nat
  | PerformanceNow number
  | ArtboardDraw
  | RendererRestore
  | ResolveAnimationFrame
  | RequestAnimationFrame
  | FlagRead bool
  | FlagWrite bool

text \<open>An entry of the console: \<^verbatim>\<open>console.log(label, stats)\<close> or \<^verbatim>\<open>console.log(text)\<close>.\<close>

datatype log_entry = LogStats string report | LogText string

text \<open>
  The module's variables (\<open>lastTime\<close>, \<open>mouseMovedThisFrame\<close>, \<open>performanceData\<close>,
  \<open>isProcessingClick\<close>, the size of the canvas) and the environment the handlers act on:
  the operations performed so far, the console, the archives whose \<^verbatim>\<open>generateAsync\<close>
  promise is still pending, and the files downloaded so far (name and archive).
\<close>

record harness =
  lastTime :: number
  mouseMovedThisFrame :: bool
  performanceData :: "sample list"
  isProcessingClick :: bool
  canvasWidth :: nat
  canvasHeight :: nat
  trace :: "op list"
  console :: "log_entry list"
  packaging :: "zip list"
  downloads :: "(string \<times> zip) list"

definition HIGH_PERFORMANCE_MACHINE :: bool where
  "HIGH_PERFORMANCE_MACHINE = False"

definition perform :: "op list \<Rightarrow> harness \<Rightarrow> harness" where
  "perform ops s = s\<lparr> trace := trace s @ ops \<rparr>"

text \<open>The state when \<open>main\<close> has installed the handlers, sized the canvas to the
  window (\<open>w\<close> by \<open>h\<close>) and requested the first frame.\<close>

definition init :: "nat \<Rightarrow> nat \<Rightarrow> harness" where
  "init w h =
     \<lparr> lastTime = Fin 0, mouseMovedThisFrame = False, performanceData = [],
       isProcessingClick = False, canvasWidth = w, canvasHeight = h,
       trace = [RequestAnimationFrame], console = [], packaging = [], downloads = [] \<rparr>"

definition onResizeWindow :: "nat \<Rightarrow> nat \<Rightarrow> harness \<Rightarrow> harness" where
  "onResizeWindow innerWidth innerHeight s =
     s\<lparr> canvasWidth := innerWidth, canvasHeight := innerHeight \<rparr>"

definition onMouseMove :: "harness \<Rightarrow> harness" where
  "onMouseMove s = perform [FlagWrite True] (s\<lparr> mouseMovedThisFrame := True \<rparr>)"

text \<open>
  \<open>onClick\<close> up to its return: the guard, the statistics and their log, the two files
  of the archive, the start of \<^verbatim>\<open>generateAsync\<close> (the archive joins the pending ones) and
  the reset of the buffer.
\<close>

definition onClick :: "platform \<Rightarrow> harness \<Rightarrow> harness" where
  "onClick pf s =
     (if isProcessingClick s then s
      else
        let s = s\<lparr> isProcessingClick := True \<rparr>;
            stats = calculateStatistics (performanceData s);
            s = s\<lparr> console := console s @
                  [LogStats ''Performance Statistics:'' stats,
                   LogText (''Performance impact of mouse movement: '' @
                            toFixed2 pf (difference stats) @ ''ms''),
                   LogText (''Mouse moved frames: '' @
                            numberToString pf (Fin (real (count (mouseMovedStats stats)))) @
                            '' (mean: '' @ toFixed2 pf (mean (mouseMovedStats stats)) @
                            ''ms '' @ [CHR 0xB1] @
                            toFixed2 pf (stdDev (mouseMovedStats stats)) @ '')''),
                   LogText (''Static frames: '' @
                            numberToString pf (Fin (real (count (mouseNotMovedStats stats)))) @
                            '' (mean: '' @ toFixed2 pf (mean (mouseNotMovedStats stats)) @
                            ''ms '' @ [CHR 0xB1] @
                            toFixed2 pf (stdDev (mouseNotMovedStats stats)) @ '')'')] \<rparr>;
            zip = [(''performance_data.csv'', csvContent pf (performanceData s)),
                   (''statistics.txt'', statsText pf stats)];
            s = s\<lparr> packaging := packaging s @ [zip] \<rparr>
        in s\<lparr> performanceData := [] \<rparr>)"

text \<open>
  The callback of \<^verbatim>\<open>generateAsync(...).then\<close>: the archive is downloaded as
  \<^verbatim>\<open>performance_data.zip\<close> (a link is created, clicked and removed) and the guard is
  released. It runs when a pending promise resolves; without one there is nothing to run.
\<close>

definition packagingDone :: "harness \<Rightarrow> harness" where
  "packagingDone s =
     (case packaging s of
        [] \<Rightarrow> s
      | content # rest \<Rightarrow>
          s\<lparr> packaging := rest,
             downloads := downloads s @ [(''performance_data.zip'', content)],
             isProcessingClick := False \<rparr>)"

text \<open>
  \<open>renderLoop(time)\<close>; \<open>start\<close> and \<open>end\<close> are the values the two calls of
  \<^verbatim>\<open>performance.now()\<close> return.
\<close>

definition renderLoop :: "number \<Rightarrow> number \<Rightarrow> number \<Rightarrow> harness \<Rightarrow> harness" where
  "renderLoop time start end s =
     (let s = (if \<not> truthy (lastTime s) then s\<lparr> lastTime := time \<rparr> else s);
          elapsedTimeMs = num_sub time (lastTime s);
          elapsedTimeSec = num_div elapsedTimeMs (Fin 1000);
          s = s\<lparr> lastTime := time \<rparr>;
          s = perform [RendererClear] s;
          s = perform [StateMachineAdvance elapsedTimeSec] s;
          s = perform [ArtboardAdvance elapsedTimeSec] s;
          s = perform [RendererSave] s;
          s = perform [RendererAlign (canvasWidth s) (canvasHeight s)] s;
          s = perform [PerformanceNow start] s;
          s = (if HIGH_PERFORMANCE_MACHINE then perform (replicate 2000 ArtboardDraw) s
               else perform [ArtboardDraw] s);
          s = perform [PerformanceNow end] s;
          drawTime = num_sub end start;
          s = perform [FlagRead (mouseMovedThisFrame s)] s;
          s = s\<lparr> performanceData := performanceData s @
                  [\<lparr> ms = drawTime, mouseMoved = mouseMovedThisFrame s \<rparr>] \<rparr>;
          s = perform [RendererRestore] s;
          s = perform [ResolveAnimationFrame] s;
          s = perform [RequestAnimationFrame] s;
          s = perform [FlagWrite False] (s\<lparr> mouseMovedThisFrame := False \<rparr>)
      in s)"

text \<open>The operations that one call of \<open>renderLoop\<close> adds to the trace.\<close>

definition tick_ops :: "number \<Rightarrow> number \<Rightarrow> number \<Rightarrow> harness \<Rightarrow> op list" where
  "tick_ops time start end s = drop (length (trace s)) (trace (renderLoop time start end s))"

section \<open>Events\<close>

text \<open>
  Everything runs on one thread: a handler runs to its end before the next event is
  handled. \<open>Frame time start end\<close> is a call of \<open>renderLoop\<close> by the browser,
  \<open>PackagingDone\<close> the resolution of the oldest pending \<^verbatim>\<open>generateAsync\<close> promise.
\<close>

datatype event =
    Click
  | MouseMove
  | Resize nat nat
  | Frame number number number
  | PackagingDone

fun step :: "platform \<Rightarrow> event \<Rightarrow> harness \<Rightarrow> harness" where
  "step pf Click s = onClick pf s"
| "step pf MouseMove s = onMouseMove s"
| "step pf (Resize w h) s = onResizeWindow w h s"
| "step pf (Frame time start end) s = renderLoop time start end s"
| "step pf PackagingDone s = packagingDone s"

fun run :: "platform \<Rightarrow> event list \<Rightarrow> harness \<Rightarrow> harness" where
  "run pf [] s = s"
| "run pf (e # es) s = run pf es (step pf e s)"



section \<open>Reading the table back\<close>

text \<open>
  The repository writes the table and never reads it. The reader of this section is
  modelled from the spec, which describes the table as the header
  \<^verbatim>\<open>DrawTime(ms),MouseMoved\<close> followed by one line per sample as \<^verbatim>\<open><float>,<bool>\<close>.
\<close>







section \<open>An instance of the platform functions\<close>

text \<open>
  Decimal printing and reading of natural numbers, to run the definitions on concrete
  buffers. \<open>decimalNumber\<close> agrees with \<open>Number::toString\<close> on the special values and on
  the integers below \<open>10^21\<close> (a fraction is cut off); \<open>decimalFixed2\<close> follows
  \<open>toFixed(2)\<close> below \<open>10^21\<close>: the sign, then the nearest multiple of \<open>1/100\<close> (the
  larger one on a tie) with two digits after the point.
\<close>

definition digit :: "nat \<Rightarrow> char" where
  "digit n = ''0123456789'' ! n"

fun decimal :: "nat \<Rightarrow> string" where
  "decimal n = (if n < 10 then [digit n] else decimal (n div 10) @ [digit (n mod 10)])"

declare decimal.simps [simp del]

definition decimalNumber :: "number \<Rightarrow> string" where
  "decimalNumber x =
     (case x of
        Fin r \<Rightarrow> (if r < 0 then ''-'' else []) @ decimal (nat \<lfloor>\<bar>r\<bar>\<rfloor>)
      | PosInf \<Rightarrow> ''Infinity''
      | NegInf \<Rightarrow> ''-Infinity''
      | NaN \<Rightarrow> ''NaN'')"

definition decimalFixed2 :: "number \<Rightarrow> string" where
  "decimalFixed2 x =
     (case x of
        Fin r \<Rightarrow>
          (let n = nat \<lfloor>\<bar>r\<bar> * 100 + 1 / 2\<rfloor>
           in (if r < 0 then ''-'' else []) @ decimal (n div 100) @ ''.'' @
              [digit (n mod 100 div 10), digit (n mod 10)])
      | PosInf \<Rightarrow> ''Infinity''
      | NegInf \<Rightarrow> ''-Infinity''
      | NaN \<Rightarrow> ''NaN'')"




definition decimalPlatform :: platform where
  "decimalPlatform = \<lparr> numberToString = decimalNumber, toFixed2 = decimalFixed2 \<rparr>"

section \<open>Order of operations\<close>

fun isAdvance :: "op \<Rightarrow> bool" where
  "isAdvance (StateMachineAdvance e) = True"
| "isAdvance (ArtboardAdvance e) = True"
| "isAdvance x = False"

text \<open>The render setup: clear, save of the transform, fit and alignment.\<close>

fun isRenderSetup :: "op \<Rightarrow> bool" where
  "isRenderSetup RendererClear = True"
| "isRenderSetup RendererSave = True"
| "isRenderSetup (RendererAlign w h) = True"
| "isRenderSetup x = False"

fun isFlagAccess :: "op \<Rightarrow> bool" where
  "isFlagAccess (FlagRead b) = True"
| "isFlagAccess (FlagWrite b) = True"
| "isFlagAccess x = False"

text \<open>
  \<open>invoked_before P Q ops\<close>: an operation of kind \<open>P\<close> is performed, and none of kind
  \<open>P\<close> is performed once the first operation of kind \<open>Q\<close> has been.
\<close>

definition invoked_before :: "(op \<Rightarrow> bool) \<Rightarrow> (op \<Rightarrow> bool) \<Rightarrow> op list \<Rightarrow> bool" where
  "invoked_before P Q ops =
     (list_ex P ops \<and> list_all (\<lambda>x. \<not> P x) (dropWhile (\<lambda>x. \<not> Q x) ops))"

section \<open>The guard and the pending archive\<close>

text \<open>
  The guard is set exactly while an archive is being packaged, and at most one archive is
  pending. The state after \<open>main\<close> satisfies this and every handler keeps it.
\<close>

definition guard_inv :: "harness \<Rightarrow> bool" where
  "guard_inv s = ((isProcessingClick s \<longleftrightarrow> packaging s \<noteq> []) \<and> length (packaging s) \<le> 1)"

section \<open>A concrete session\<close>

text \<open>
  Two frames with a pointer movement between them, from the initial state with a window
  of 800 by 600; then a frame, a pointer movement and a click.
\<close>

definition demo_state :: harness where
  "demo_state = run decimalPlatform
     [Frame (Fin 16) (Fin 1) (Fin 3), MouseMove, Frame (Fin 32) (Fin 4) (Fin 7)] (init 800 600)"


section \<open>Properties of the statistics\<close>

lemma sqrt_100: "sqrt 100 = 10"
  by (rule real_sqrt_unique) simp_all

lemma mean_of_Nil: "mean_of [] = NaN"
  by (simp add: mean_of_def length_num_def)

lemma stdDev_of_Nil: "stdDev_of [] m = NaN"
  by (simp add: stdDev_of_def length_num_def)

lemma num_sub_NaN_right: "num_sub a NaN = NaN"
  by (cases a) simp_all

text \<open>
  Claim C1. For the buffer \<open>[{10, true}, {20, false}, {30, true}]\<close> the statistics are:
  moved group count 2, mean 20, standard deviation 10; static group count 1, mean 20,
  standard deviation 0; difference 0.
\<close>

theorem calculateStatistics_scenario:
  "calculateStatistics
     [\<lparr> ms = Fin 10, mouseMoved = True \<rparr>,
      \<lparr> ms = Fin 20, mouseMoved = False \<rparr>,
      \<lparr> ms = Fin 30, mouseMoved = True \<rparr>]
   = \<lparr> mouseMovedStats = \<lparr> count = 2, mean = Fin 20, stdDev = Fin 10 \<rparr>,
       mouseNotMovedStats = \<lparr> count = 1, mean = Fin 20, stdDev = Fin 0 \<rparr>,
       difference = Fin 0 \<rparr>"
  by (simp add: calculateStatistics_def Let_def mean_of_def stdDev_of_def length_num_def sqrt_100)

text \<open>
  Claim C4. A group without samples has mean NaN and standard deviation NaN, and the
  difference of the means is NaN as soon as one of the two groups is empty; on the empty
  buffer both groups are \<open>{count 0, mean NaN, stdDev NaN}\<close> and the difference is NaN.
\<close>

theorem calculateStatistics_empty_group:
  "(count (mouseMovedStats (calculateStatistics data)) = 0 \<longrightarrow>
      mean (mouseMovedStats (calculateStatistics data)) = NaN \<and>
      stdDev (mouseMovedStats (calculateStatistics data)) = NaN \<and>
      difference (calculateStatistics data) = NaN) \<and>
   (count (mouseNotMovedStats (calculateStatistics data)) = 0 \<longrightarrow>
      mean (mouseNotMovedStats (calculateStatistics data)) = NaN \<and>
      stdDev (mouseNotMovedStats (calculateStatistics data)) = NaN \<and>
      difference (calculateStatistics data) = NaN) \<and>
   calculateStatistics [] =
     \<lparr> mouseMovedStats = \<lparr> count = 0, mean = NaN, stdDev = NaN \<rparr>,
       mouseNotMovedStats = \<lparr> count = 0, mean = NaN, stdDev = NaN \<rparr>,
       difference = NaN \<rparr>"
  by (simp add: calculateStatistics_def Let_def mean_of_Nil stdDev_of_Nil num_sub_NaN_right)

theorem calculateStatistics_empty_group_witness:
  "count (mouseMovedStats (calculateStatistics [\<lparr> ms = Fin 20, mouseMoved = False \<rparr>])) = 0 \<and>
   mean (mouseMovedStats (calculateStatistics [\<lparr> ms = Fin 20, mouseMoved = False \<rparr>])) = NaN \<and>
   stdDev (mouseMovedStats (calculateStatistics [\<lparr> ms = Fin 20, mouseMoved = False \<rparr>])) = NaN \<and>
   difference (calculateStatistics [\<lparr> ms = Fin 20, mouseMoved = False \<rparr>]) = NaN \<and>
   count (mouseNotMovedStats (calculateStatistics [\<lparr> ms = Fin 20, mouseMoved = True \<rparr>])) = 0 \<and>
   mean (mouseNotMovedStats (calculateStatistics [\<lparr> ms = Fin 20, mouseMoved = True \<rparr>])) = NaN \<and>
   stdDev (mouseNotMovedStats (calculateStatistics [\<lparr> ms = Fin 20, mouseMoved = True \<rparr>])) = NaN \<and>
   difference (calculateStatistics [\<lparr> ms = Fin 20, mouseMoved = True \<rparr>]) = NaN"
proof -
  have a: "count (mouseMovedStats (calculateStatistics [\<lparr> ms = Fin 20, mouseMoved = False \<rparr>])) = 0"
    by (simp add: calculateStatistics_def Let_def)
  have b: "count (mouseNotMovedStats (calculateStatistics [\<lparr> ms = Fin 20, mouseMoved = True \<rparr>])) = 0"
    by (simp add: calculateStatistics_def Let_def)
  show ?thesis
    using a b
      calculateStatistics_empty_group [of "[\<lparr> ms = Fin 20, mouseMoved = False \<rparr>]"]
      calculateStatistics_empty_group [of "[\<lparr> ms = Fin 20, mouseMoved = True \<rparr>]"]
    by blast
qed

text \<open>
  Claim C5. The two groups partition the input: the count of the moved group plus the count
  of the static group is the length of the sample list.
\<close>

theorem calculateStatistics_counts:
  "count (mouseMovedStats (calculateStatistics data)) +
   count (mouseNotMovedStats (calculateStatistics data)) = length data"
  by (simp add: calculateStatistics_def Let_def sum_length_filter_compl)

section \<open>Frames, clicks and the pending archive\<close>

lemma renderLoop_eq:
  "renderLoop time start end s =
     s\<lparr> lastTime := time,
        trace := trace s @
          [RendererClear,
           StateMachineAdvance (num_div (num_sub time (if truthy (lastTime s) then lastTime s else time)) (Fin 1000)),
           ArtboardAdvance (num_div (num_sub time (if truthy (lastTime s) then lastTime s else time)) (Fin 1000)),
           RendererSave, RendererAlign (canvasWidth s) (canvasHeight s),
           PerformanceNow start, ArtboardDraw, PerformanceNow end,
           FlagRead (mouseMovedThisFrame s),
           RendererRestore, ResolveAnimationFrame, RequestAnimationFrame, FlagWrite False],
        performanceData := performanceData s @ [\<lparr> ms = num_sub end start, mouseMoved = mouseMovedThisFrame s \<rparr>],
        mouseMovedThisFrame := False \<rparr>"
  by (simp add: renderLoop_def Let_def perform_def HIGH_PERFORMANCE_MACHINE_def)

lemma tick_ops_eq:
  "tick_ops time start end s =
          [RendererClear,
           StateMachineAdvance (num_div (num_sub time (if truthy (lastTime s) then lastTime s else time)) (Fin 1000)),
           ArtboardAdvance (num_div (num_sub time (if truthy (lastTime s) then lastTime s else time)) (Fin 1000)),
           RendererSave, RendererAlign (canvasWidth s) (canvasHeight s),
           PerformanceNow start, ArtboardDraw, PerformanceNow end,
           FlagRead (mouseMovedThisFrame s),
           RendererRestore, ResolveAnimationFrame, RequestAnimationFrame, FlagWrite False]"
  by (simp add: tick_ops_def renderLoop_eq)


lemma onClick_idle_fields:
  assumes "\<not> isProcessingClick s"
  shows "isProcessingClick (onClick pf s)"
    and "performanceData (onClick pf s) = []"
    and "packaging (onClick pf s) = packaging s @ [makeZip pf (performanceData s)]"
    and "downloads (onClick pf s) = downloads s"
    and "mouseMovedThisFrame (onClick pf s) = mouseMovedThisFrame s"
    and "lastTime (onClick pf s) = lastTime s"
    and "trace (onClick pf s) = trace s"
  using assms by (simp_all add: onClick_def Let_def makeZip_def)





lemma packagingDone_pending:
  "packaging s = z # zs \<Longrightarrow>
   packagingDone s = s\<lparr> packaging := zs, downloads := downloads s @ [(''performance_data.zip'', z)], isProcessingClick := False \<rparr>"
  by (simp add: packagingDone_def)

lemma step_guard_inv: "guard_inv s \<Longrightarrow> guard_inv (step pf e s)"
  by (cases e; cases "packaging s"; auto simp add: guard_inv_def onClick_def Let_def onMouseMove_def perform_def onResizeWindow_def renderLoop_eq packagingDone_def)

lemma run_guard_inv: "guard_inv s \<Longrightarrow> guard_inv (run pf evs s)"
  by (induction evs arbitrary: s) (simp_all add: step_guard_inv)

lemma init_guard_inv: "guard_inv (init w h)"
  by (simp add: guard_inv_def init_def)

lemma reachable_guard_inv: "guard_inv (run pf evs (init w h))"
  by (rule run_guard_inv [OF init_guard_inv])

lemma demo_state_eq:
  "demo_state =
     \<lparr> lastTime = Fin 32, mouseMovedThisFrame = False,
       performanceData = [\<lparr> ms = Fin 2, mouseMoved = False \<rparr>, \<lparr> ms = Fin 3, mouseMoved = True \<rparr>],
       isProcessingClick = False, canvasWidth = 800, canvasHeight = 600,
       trace = trace demo_state, console = [], packaging = [], downloads = [] \<rparr>"
  by (simp add: demo_state_def renderLoop_eq onMouseMove_def perform_def init_def)





text \<open>
  Claim C7. A frame at the finite timestamp \<open>time\<close>: when \<open>lastTime\<close> is unset (the
  program's test \<^verbatim>\<open>!lastTime\<close>: zero, the initial value, or NaN) the elapsed seconds
  passed to the two advance calls are zero, otherwise they are
  \<open>(time - lastTime) / 1000\<close>; in both cases \<open>lastTime\<close> is \<open>time\<close> afterwards.
\<close>

theorem renderLoop_elapsed_time:
  "lastTime (renderLoop time start end s) = time \<and>
   (\<not> truthy (lastTime s) \<and> is_finite time \<longrightarrow>
      filter isAdvance (tick_ops time start end s) =
        [StateMachineAdvance (Fin 0), ArtboardAdvance (Fin 0)]) \<and>
   (truthy (lastTime s) \<longrightarrow>
      filter isAdvance (tick_ops time start end s) =
        [StateMachineAdvance (num_div (num_sub time (lastTime s)) (Fin 1000)),
         ArtboardAdvance (num_div (num_sub time (lastTime s)) (Fin 1000))])"
  by (cases time) (simp_all add: tick_ops_eq renderLoop_eq)

text \<open>The first frame of a session, and a frame one second after the last one, for C7.\<close>

theorem renderLoop_elapsed_time_witness:
  "\<not> truthy (lastTime (init 800 600)) \<and> is_finite (Fin 16) \<and>
   filter isAdvance (tick_ops (Fin 16) (Fin 1) (Fin 3) (init 800 600)) =
     [StateMachineAdvance (Fin 0), ArtboardAdvance (Fin 0)] \<and>
   lastTime (renderLoop (Fin 16) (Fin 1) (Fin 3) (init 800 600)) = Fin 16 \<and>
   truthy (lastTime demo_state) \<and>
   filter isAdvance (tick_ops (Fin 1032) (Fin 8) (Fin 9) demo_state) =
     [StateMachineAdvance (Fin 1), ArtboardAdvance (Fin 1)] \<and>
   lastTime (renderLoop (Fin 1032) (Fin 8) (Fin 9) demo_state) = Fin 1032"
proof -
  have u: "\<not> truthy (lastTime (init 800 600))" by (simp add: init_def)
  have f: "is_finite (Fin 16)" by simp
  have l: "lastTime demo_state = Fin 32" by (subst demo_state_eq) simp
  have t: "truthy (lastTime demo_state)" by (simp add: l)
  show ?thesis
    using renderLoop_elapsed_time [of "Fin 16" "Fin 1" "Fin 3" "init 800 600"]
      renderLoop_elapsed_time [of "Fin 1032" "Fin 8" "Fin 9" demo_state] u f t
    by (simp add: l)
qed

text \<open>
  The initial value 0 of \<open>lastTime\<close> stands for unset, so a frame at the timestamp 0
  leaves it unset for the next frame.
\<close>

lemma renderLoop_at_zero_unset: "\<not> truthy (lastTime (renderLoop (Fin 0) start end s))"
  by (simp add: renderLoop_eq)

text \<open>
  Claim C8. A frame appends exactly one sample, tagged with the value that the activity
  flag has during the frame; the flag is false after the frame whatever it was; and the
  frame accesses the flag exactly twice, one read and then one write of false.
\<close>

theorem renderLoop_sample_and_flag:
  "performanceData (renderLoop time start end s) =
     performanceData s @ [\<lparr> ms = num_sub end start, mouseMoved = mouseMovedThisFrame s \<rparr>] \<and>
   mouseMovedThisFrame (renderLoop time start end s) = False \<and>
   filter isFlagAccess (tick_ops time start end s) =
     [FlagRead (mouseMovedThisFrame s), FlagWrite False]"
  by (simp add: tick_ops_eq renderLoop_eq)

text \<open>
  Claim C9 says that the simulation is advanced before the render setup (clear, save,
  align) is invoked. It fails on the first frame of a session: the renderer is cleared
  before the state machine is advanced.
\<close>

theorem advance_before_setup_counterexample:
  "\<not> invoked_before isAdvance isRenderSetup (tick_ops (Fin 16) (Fin 1) (Fin 3) (init 800 600))"
  by (simp add: tick_ops_eq invoked_before_def init_def)

text \<open>
  Claim C9, amended. The first five operations of every frame are, in this order: the
  renderer is cleared, the state machine and then the artboard are advanced by the
  elapsed seconds, the transform is saved, fit and alignment are computed against the
  canvas. The advance follows the clear and precedes the save and the alignment.
\<close>

theorem tick_call_order:
  "take 5 (tick_ops time start end s) =
     [RendererClear,
      StateMachineAdvance (num_div (num_sub time (if truthy (lastTime s) then lastTime s else time)) (Fin 1000)),
      ArtboardAdvance (num_div (num_sub time (if truthy (lastTime s) then lastTime s else time)) (Fin 1000)),
      RendererSave,
      RendererAlign (canvasWidth s) (canvasHeight s)]"
  by (simp add: tick_ops_eq)

text \<open>
  Claim C10, amended. A click on an empty buffer while the guard is free runs to its end:
  when packaging ends one archive is downloaded, its table is the header line followed by
  one line feed and nothing else, the buffer is empty and the guard is free.
\<close>

theorem export_empty_buffer:
  "\<not> isProcessingClick s \<and> packaging s = [] \<and> performanceData s = [] \<longrightarrow>
     downloads (run pf [Click, PackagingDone] s) =
       downloads s @
       [(''performance_data.zip'',
         [(''performance_data.csv'', ''DrawTime(ms),MouseMoved'' @ [CHR 0x0A]),
          (''statistics.txt'', statsText pf (calculateStatistics []))])] \<and>
     performanceData (run pf [Click] s) = [] \<and>
     performanceData (run pf [Click, PackagingDone] s) = [] \<and>
     \<not> isProcessingClick (run pf [Click, PackagingDone] s)"
proof
  assume a: "\<not> isProcessingClick s \<and> packaging s = [] \<and> performanceData s = []"
  then have idle: "\<not> isProcessingClick s" by simp
  note c = onClick_idle_fields [OF idle, of pf]
  have p: "packaging (onClick pf s) = [makeZip pf []]" using a by (simp add: c)
  show "downloads (run pf [Click, PackagingDone] s) =
       downloads s @
       [(''performance_data.zip'',
         [(''performance_data.csv'', ''DrawTime(ms),MouseMoved'' @ [CHR 0x0A]),
          (''statistics.txt'', statsText pf (calculateStatistics []))])] \<and>
     performanceData (run pf [Click] s) = [] \<and>
     performanceData (run pf [Click, PackagingDone] s) = [] \<and>
     \<not> isProcessingClick (run pf [Click, PackagingDone] s)"
    by (simp add: packagingDone_pending [OF p] c makeZip_def csvContent_def csvHeader_def)
qed

text \<open>
  Claim C10 says that the table of an empty buffer is the header line without a trailing
  line feed. The table exported from the initial state is not that string: the line feed
  belongs to the header literal of \<open>onClick\<close>.
\<close>

theorem export_empty_buffer_counterexample:
  "map_of (snd (last (downloads (run decimalPlatform [Click, PackagingDone] (init 800 600)))))
     ''performance_data.csv'' \<noteq> Some ''DrawTime(ms),MouseMoved''"
proof -
  have idle: "\<not> isProcessingClick (init 800 600)" by (simp add: init_def)
  note c = onClick_idle_fields [OF idle, of decimalPlatform]
  have p: "packaging (onClick decimalPlatform (init 800 600)) = [makeZip decimalPlatform []]"
    by (simp add: c) (simp add: init_def)
  show ?thesis
    by (simp add: packagingDone_pending [OF p] c makeZip_def csvContent_def csvHeader_def)
qed

text \<open>The initial state satisfies the hypotheses of the amended C10.\<close>

theorem export_empty_buffer_witness:
  "\<not> isProcessingClick (init 800 600) \<and> packaging (init 800 600) = [] \<and>
   performanceData (init 800 600) = [] \<and>
   downloads (run decimalPlatform [Click, PackagingDone] (init 800 600)) =
       [(''performance_data.zip'',
         [(''performance_data.csv'', ''DrawTime(ms),MouseMoved'' @ [CHR 0x0A]),
          (''statistics.txt'', statsText decimalPlatform (calculateStatistics []))])] \<and>
   performanceData (run decimalPlatform [Click, PackagingDone] (init 800 600)) = [] \<and>
   \<not> isProcessingClick (run decimalPlatform [Click, PackagingDone] (init 800 600))"
proof -
  have h: "\<not> isProcessingClick (init 800 600) \<and> packaging (init 800 600) = [] \<and>
   performanceData (init 800 600) = []" by (simp add: init_def)
  have dl: "downloads (init 800 600) = []" by (simp add: init_def)
  show ?thesis
    using export_empty_buffer [of "init 800 600" decimalPlatform] h dl
    by simp
qed

section \<open>The table and its reader\<close>

















end
